theory Spec2Isabelle
  imports Complex_Main
begin

section \<open>The agent's start command (packages/indexer-agent/src/commands/start.ts)\<close>

subsection \<open>JavaScript numbers\<close>

text \<open>
  The options of the start command that the code below reads are declared
  \<^verbatim>\<open>type: 'number'\<close>: yargs hands them over as JavaScript numbers. A number is
  \<open>NaN\<close>, an infinity or a finite value; the finite values are rationals, and
  \<open>-0\<close> is not told apart from \<open>0\<close> (the comparisons and the truth test below do
  not tell them apart either). The product of two finite values is taken exactly:
  rounding to the nearest double and overflow are not modelled.
\<close>

datatype number = NaN | NegInfinity | Finite rat | PosInfinity

text \<open>\<^verbatim>\<open>a < b\<close> on numbers: false as soon as one side is \<open>NaN\<close>.\<close>

fun lt :: "number \<Rightarrow> number \<Rightarrow> bool" where
  "lt NaN b = False"
| "lt a NaN = False"
| "lt (Finite a) (Finite b) = (a < b)"
| "lt NegInfinity NegInfinity = False"
| "lt NegInfinity b = True"
| "lt a NegInfinity = False"
| "lt PosInfinity b = False"
| "lt a PosInfinity = True"

text \<open>\<^verbatim>\<open>a <= b\<close> on numbers.\<close>

fun le :: "number \<Rightarrow> number \<Rightarrow> bool" where
  "le NaN b = False"
| "le a NaN = False"
| "le (Finite a) (Finite b) = (a \<le> b)"
| "le NegInfinity b = True"
| "le a PosInfinity = True"
| "le PosInfinity b = False"
| "le a NegInfinity = False"

text \<open>\<^verbatim>\<open>a > b\<close> is \<^verbatim>\<open>b < a\<close>.\<close>

definition gt :: "number \<Rightarrow> number \<Rightarrow> bool" where
  "gt a b = lt b a"

text \<open>\<^verbatim>\<open>a * b\<close> on numbers.\<close>

fun sign :: "number \<Rightarrow> int" where
  "sign NaN = 0"
| "sign NegInfinity = - 1"
| "sign PosInfinity = 1"
| "sign (Finite a) = (if a < 0 then - 1 else if a = 0 then 0 else 1)"

fun times_number :: "number \<Rightarrow> number \<Rightarrow> number" where
  "times_number NaN b = NaN"
| "times_number a NaN = NaN"
| "times_number (Finite a) (Finite b) = Finite (a * b)"
| "times_number a b =
     (if sign a * sign b = 0 then NaN
      else if sign a * sign b < 0 then NegInfinity else PosInfinity)"

text \<open>The truth test of \<^verbatim>\<open>if (x)\<close>, \<^verbatim>\<open>!x\<close> and \<^verbatim>\<open>x || y\<close> on a number: \<open>0\<close> and \<open>NaN\<close> are falsy.\<close>

fun truthy_number :: "number \<Rightarrow> bool" where
  "truthy_number NaN = False"
| "truthy_number (Finite a) = (a \<noteq> 0)"
| "truthy_number NegInfinity = True"
| "truthy_number PosInfinity = True"

subsection \<open>JavaScript values\<close>

datatype jsvalue =
    Undefined
  | JNumber number
  | JString string
  | JBoolean bool
  | JArray "string list"

fun truthy :: "jsvalue \<Rightarrow> bool" where
  "truthy Undefined = False"
| "truthy (JNumber n) = truthy_number n"
| "truthy (JString s) = (s \<noteq> [])"
| "truthy (JBoolean b) = b"
| "truthy (JArray xs) = True"

text \<open>\<^verbatim>\<open>a || b\<close>: the left operand when it is truthy, the right one otherwise.\<close>

definition js_or :: "jsvalue \<Rightarrow> jsvalue \<Rightarrow> jsvalue" where
  "js_or a b = (if truthy a then a else b)"

text \<open>An optional value as the property of an object: absent reads as \<^verbatim>\<open>undefined\<close>.\<close>

fun opt_string :: "string option \<Rightarrow> jsvalue" where
  "opt_string None = Undefined"
| "opt_string (Some s) = JString s"

fun opt_number :: "number option \<Rightarrow> jsvalue" where
  "opt_number None = Undefined"
| "opt_number (Some n) = JNumber n"

subsection \<open>The options of the builder and the parsed \<open>argv\<close>\<close>

text \<open>
  The command line as the user wrote it, for the options that the check of the builder
  and the fee ceiling of the handler read. \<open>None\<close> is an option that was not given.
  A numeric option given more than once (an array in yargs) is outside this type.
\<close>

record cli =
  cli_network_subgraph_endpoint :: "string option"
  cli_network_subgraph_deployment :: "string option"
  cli_indexer_geo_coordinates :: "string list option"
  cli_gas_increase_timeout :: "number option"
  cli_gas_increase_factor :: "number option"
  cli_gas_price_max :: "number option"
  cli_base_fee_per_gas_max :: "number option"
  cli_transaction_attempts :: "number option"

text \<open>
  \<open>argv\<close> after yargs has filled in the defaults and applied each option's
  \<^verbatim>\<open>coerce\<close>. An option with a default is always present; \<^verbatim>\<open>network-subgraph-endpoint\<close>,
  \<^verbatim>\<open>network-subgraph-deployment\<close> and \<^verbatim>\<open>base-fee-per-gas-max\<close> have none.
\<close>

record argv =
  network_subgraph_endpoint :: "string option"
  network_subgraph_deployment :: "string option"
  indexer_geo_coordinates :: "string list"
  gas_increase_timeout :: number
  gas_increase_factor :: number
  gas_price_max :: number
  base_fee_per_gas_max :: "number option"
  transaction_attempts :: number

text \<open>The \<^verbatim>\<open>coerce\<close> functions of the builder (lines 67, 82, 90 and 142-146).\<close>

definition coerce_gas_increase_timeout :: "number \<Rightarrow> number" where
  "coerce_gas_increase_timeout arg = times_number arg (Finite 1000)"

definition coerce_gas_price_max :: "number \<Rightarrow> number" where
  "coerce_gas_price_max arg = times_number arg (Finite (10 ^ 9))"

definition coerce_base_fee_per_gas_max :: "number \<Rightarrow> number" where
  "coerce_base_fee_per_gas_max arg = times_number arg (Finite (10 ^ 9))"

text \<open>\<^verbatim>\<open>value.split(' ')\<close>: the pieces of a string between single spaces.\<close>

fun split_spaces :: "string \<Rightarrow> string \<Rightarrow> string list" where
  "split_spaces acc [] = [rev acc]"
| "split_spaces acc (c # cs) =
     (if c = CHR '' '' then rev acc # split_spaces [] cs else split_spaces (c # acc) cs)"

definition coerce_indexer_geo_coordinates :: "string list \<Rightarrow> string list" where
  "coerce_indexer_geo_coordinates arg = concat (map (split_spaces []) arg)"

fun with_default :: "'a \<Rightarrow> 'a option \<Rightarrow> 'a" where
  "with_default d None = d"
| "with_default d (Some v) = v"

text \<open>
  What yargs builds from the command line: the default where an option was not given,
  then the option's \<^verbatim>\<open>coerce\<close> on every option that is present.
\<close>

definition builder :: "cli \<Rightarrow> argv" where
  "builder c =
     \<lparr> network_subgraph_endpoint = cli_network_subgraph_endpoint c,
       network_subgraph_deployment = cli_network_subgraph_deployment c,
       indexer_geo_coordinates =
         coerce_indexer_geo_coordinates
           (with_default [''31.780715'', ''-41.179504''] (cli_indexer_geo_coordinates c)),
       gas_increase_timeout =
         coerce_gas_increase_timeout (with_default (Finite 240) (cli_gas_increase_timeout c)),
       gas_increase_factor = with_default (Finite (12 / 10)) (cli_gas_increase_factor c),
       gas_price_max = coerce_gas_price_max (with_default (Finite 100) (cli_gas_price_max c)),
       base_fee_per_gas_max = map_option coerce_base_fee_per_gas_max (cli_base_fee_per_gas_max c),
       transaction_attempts = with_default (Finite 0) (cli_transaction_attempts c) \<rparr>"

subsection \<open>The keys of \<open>argv\<close>\<close>

text \<open>
  yargs stores every option under the name it was declared with and under the camel-case
  form of that name: a hyphen is dropped and the letter after it is put in upper case.
  The handler reads the camel-case keys (\<^verbatim>\<open>argv.gasIncreaseTimeout\<close>), the check reads
  the declared names (\<^verbatim>\<open>argv['gas-increase-timeout']\<close>).
\<close>

definition toUpperCase :: "char \<Rightarrow> char" where
  "toUpperCase c =
     (case map_of (zip ''abcdefghijklmnopqrstuvwxyz'' ''ABCDEFGHIJKLMNOPQRSTUVWXYZ'') c of
        None \<Rightarrow> c
      | Some u \<Rightarrow> u)"

fun camelCase :: "string \<Rightarrow> string" where
  "camelCase [] = []"
| "camelCase [c] = [c]"
| "camelCase (c # d # cs) =
     (if c = CHR ''-'' then toUpperCase d # camelCase cs else c # camelCase (d # cs))"

definition option_names :: "string list" where
  "option_names =
     [''network-subgraph-endpoint'', ''network-subgraph-deployment'',
      ''indexer-geo-coordinates'', ''gas-increase-timeout'', ''gas-increase-factor'',
      ''gas-price-max'', ''base-fee-per-gas-max'', ''transaction-attempts'']"

text \<open>The value stored under a declared option name.\<close>

definition option_of :: "argv \<Rightarrow> string \<Rightarrow> jsvalue" where
  "option_of a n =
     (if n = ''network-subgraph-endpoint'' then opt_string (network_subgraph_endpoint a)
      else if n = ''network-subgraph-deployment'' then opt_string (network_subgraph_deployment a)
      else if n = ''indexer-geo-coordinates'' then JArray (indexer_geo_coordinates a)
      else if n = ''gas-increase-timeout'' then JNumber (gas_increase_timeout a)
      else if n = ''gas-increase-factor'' then JNumber (gas_increase_factor a)
      else if n = ''gas-price-max'' then JNumber (gas_price_max a)
      else if n = ''base-fee-per-gas-max'' then opt_number (base_fee_per_gas_max a)
      else if n = ''transaction-attempts'' then JNumber (transaction_attempts a)
      else Undefined)"

text \<open>
  \<^verbatim>\<open>argv[key]\<close> and \<^verbatim>\<open>argv.key\<close>: the option whose declared name or camel-case name is
  the key, \<^verbatim>\<open>undefined\<close> when there is none.
\<close>

definition property :: "argv \<Rightarrow> string \<Rightarrow> jsvalue" where
  "property a key =
     (case find (\<lambda>n. key = n \<or> key = camelCase n) option_names of
        None \<Rightarrow> Undefined
      | Some n \<Rightarrow> option_of a n)"

subsection \<open>The check of the builder (lines 311-333)\<close>

text \<open>The check returns \<^verbatim>\<open>true\<close> or the message of the first test that fails.\<close>

datatype check_result = CheckTrue | CheckMessage string

definition msg_network_subgraph :: string where
  "msg_network_subgraph =
     ''At least one of --network-subgraph-endpoint and --network-subgraph-deployment must be provided''"

definition msg_geo_coordinates :: string where
  "msg_geo_coordinates =
     ''Invalid --indexer-geo-coordinates provided. Must be of format e.g.: 31.780715 -41.179504''"

definition msg_gas_increase_timeout :: string where
  "msg_gas_increase_timeout =
     ''Invalid --gas-increase-timeout provided. Must be at least 30 seconds''"

definition msg_gas_increase_factor :: string where
  "msg_gas_increase_factor = ''Invalid --gas-increase-factor provided. Must be > 1.0''"

text \<open>
  \<^verbatim>\<open>const [geo1, geo2] = argv['indexer-geo-coordinates']\<close>: an element the array does
  not have is \<^verbatim>\<open>undefined\<close>. \<^verbatim>\<open>+geo\<close> is \<open>NaN\<close> on \<^verbatim>\<open>undefined\<close> and the
  language's conversion of a string to a number otherwise; that conversion is the
  parameter \<open>toNumber\<close>.
\<close>

fun element :: "string list \<Rightarrow> nat \<Rightarrow> string option" where
  "element [] i = None"
| "element (x # xs) 0 = Some x"
| "element (x # xs) (Suc i) = element xs i"

fun unary_plus :: "(string \<Rightarrow> number) \<Rightarrow> string option \<Rightarrow> number" where
  "unary_plus toNumber None = NaN"
| "unary_plus toNumber (Some s) = toNumber s"

definition check :: "(string \<Rightarrow> number) \<Rightarrow> argv \<Rightarrow> check_result" where
  "check toNumber a =
     (if \<not> truthy (opt_string (network_subgraph_endpoint a)) \<and>
         \<not> truthy (opt_string (network_subgraph_deployment a))
      then CheckMessage msg_network_subgraph
      else if truthy (JArray (indexer_geo_coordinates a)) \<and>
         (\<not> truthy_number (unary_plus toNumber (element (indexer_geo_coordinates a) 0)) \<or>
          \<not> truthy_number (unary_plus toNumber (element (indexer_geo_coordinates a) 1)))
      then CheckMessage msg_geo_coordinates
      else if truthy_number (gas_increase_timeout a) \<and>
         lt (gas_increase_timeout a) (Finite 30000)
      then CheckMessage msg_gas_increase_timeout
      else if le (gas_increase_factor a) (Finite 1)
      then CheckMessage msg_gas_increase_factor
      else CheckTrue)"

subsection \<open>The fee ceiling of the handler (line 678)\<close>

text \<open>\<^verbatim>\<open>const maxGasFee = argv.baseFeeGasMax || argv.gasPriceMax\<close>\<close>

definition maxGasFee :: "argv \<Rightarrow> jsvalue" where
  "maxGasFee a = js_or (property a ''baseFeeGasMax'') (property a ''gasPriceMax'')"

subsection \<open>Concrete command lines\<close>

text \<open>
  A command line that names the network subgraph endpoint and leaves every other option
  at its default, and the conversion of the two default coordinates to numbers.
\<close>

definition cli_defaults :: cli where
  "cli_defaults =
     \<lparr> cli_network_subgraph_endpoint = Some ''http://localhost:8000/subgraphs/name/network'',
       cli_network_subgraph_deployment = None,
       cli_indexer_geo_coordinates = None,
       cli_gas_increase_timeout = None,
       cli_gas_increase_factor = None,
       cli_gas_price_max = None,
       cli_base_fee_per_gas_max = None,
       cli_transaction_attempts = None \<rparr>"

definition toNumber_coordinates :: "string \<Rightarrow> number" where
  "toNumber_coordinates s =
     (if s = ''31.780715'' then Finite (31780715 / 1000000)
      else if s = ''-41.179504'' then Finite (- (41179504 / 1000000))
      else NaN)"

section \<open>The transaction executor\<close>

text \<open>
  Modelled from the spec: the execution policy of \<^verbatim>\<open>TransactionExecutor.submit\<close>
  (section 4.1). The executor is not among the source files: the handler only hands
  \<^verbatim>\<open>gasIncreaseTimeout\<close>, \<^verbatim>\<open>gasIncreaseFactor\<close>, \<^verbatim>\<open>maxGasFee\<close> and
  \<^verbatim>\<open>transactionAttempts\<close> to \<^verbatim>\<open>Network.create\<close>. Fees are exact rationals.
\<close>

record policy =
  maxAttempts :: nat
  feeEscalationFactor :: rat
  feeConfirmationTimeout :: nat
  maxFeeCap :: "rat option"

text \<open>
  Modelled from the spec: the fee of a resubmission, "recompute fee as
  previousFee x feeEscalationFactor, capped at maxFeeCap if set".
\<close>

definition recompute_fee :: "policy \<Rightarrow> rat \<Rightarrow> rat" where
  "recompute_fee p previousFee =
     (case maxFeeCap p of
        None \<Rightarrow> previousFee * feeEscalationFactor p
      | Some cap \<Rightarrow> min (previousFee * feeEscalationFactor p) cap)"

text \<open>
  Modelled from the spec: what the chain reports for one attempt within
  \<open>feeConfirmationTimeout\<close>, and the outcome of a transaction attempt
  ("outcome in pending, confirmed, reverted, timed-out").
\<close>

datatype chain_report = Mined | Revert | Unconfirmed

datatype outcome = StillPending | Confirmed | Reverted | TimedOut

text \<open>Modelled from the spec: a transaction attempt, with its nonce and its fee.\<close>

record attempt =
  nonce :: nat
  fee :: rat

text \<open>
  Modelled from the spec: "If unconfirmed and attempts remain": \<open>maxAttempts = 0\<close> is
  unlimited; \<open>sent\<close> counts the attempts sent so far.
\<close>

definition attempts_remain :: "policy \<Rightarrow> nat \<Rightarrow> bool" where
  "attempts_remain p sent = (maxAttempts p = 0 \<or> sent < maxAttempts p)"

text \<open>
  Modelled from the spec: the loop of \<open>submit\<close> from attempt number \<open>n\<close> on, over the
  reports of the chain for the successive attempts. It sends the attempt; on a
  confirmation it returns confirmed, on a revert it returns at once, and on no
  confirmation it resends under the same nonce with the recomputed fee while attempts
  remain, and returns timed-out otherwise. When the reports run out the last attempt
  is still awaited. The result is every attempt sent, in order, and the outcome.
\<close>

fun submit_from ::
  "policy \<Rightarrow> nat \<Rightarrow> nat \<Rightarrow> rat \<Rightarrow> chain_report list \<Rightarrow> attempt list \<times> outcome" where
  "submit_from p k n f [] = ([\<lparr>nonce = k, fee = f\<rparr>], StillPending)"
| "submit_from p k n f (Mined # rs) = ([\<lparr>nonce = k, fee = f\<rparr>], Confirmed)"
| "submit_from p k n f (Revert # rs) = ([\<lparr>nonce = k, fee = f\<rparr>], Reverted)"
| "submit_from p k n f (Unconfirmed # rs) =
     (if attempts_remain p (Suc n)
      then (case submit_from p k (Suc n) (recompute_fee p f) rs of
              (later, result) \<Rightarrow> (\<lparr>nonce = k, fee = f\<rparr> # later, result))
      else ([\<lparr>nonce = k, fee = f\<rparr>], TimedOut))"

text \<open>
  Modelled from the spec: \<open>submit\<close> assigns the next nonce of the sender and sends
  attempt 0 at the fee the network suggests.
\<close>

definition submit :: "policy \<Rightarrow> nat \<Rightarrow> rat \<Rightarrow> chain_report list \<Rightarrow> attempt list \<times> outcome" where
  "submit p nextNonce suggestedFee reports = submit_from p nextNonce 0 suggestedFee reports"

text \<open>The policy of the spec's scenario: factor 1.2, cap 15, unlimited attempts.\<close>

definition scenario_policy :: policy where
  "scenario_policy =
     \<lparr> maxAttempts = 0, feeEscalationFactor = 12 / 10, feeConfirmationTimeout = 240000,
       maxFeeCap = Some 15 \<rparr>"

section \<open>Properties of the start command\<close>

subsection \<open>The keys the handler and the check read\<close>

lemma property_declared_names:
  "property a ''network-subgraph-endpoint'' = opt_string (network_subgraph_endpoint a)"
  "property a ''network-subgraph-deployment'' = opt_string (network_subgraph_deployment a)"
  "property a ''indexer-geo-coordinates'' = JArray (indexer_geo_coordinates a)"
  "property a ''gas-increase-timeout'' = JNumber (gas_increase_timeout a)"
  "property a ''gas-increase-factor'' = JNumber (gas_increase_factor a)"
  by (simp_all add: property_def option_names_def option_of_def)

lemma property_gasPriceMax: "property a ''gasPriceMax'' = JNumber (gas_price_max a)"
  by (simp add: property_def option_names_def toUpperCase_def option_of_def)

lemma property_baseFeePerGasMax:
  "property a ''baseFeePerGasMax'' = opt_number (base_fee_per_gas_max a)"
  by (simp add: property_def option_names_def toUpperCase_def option_of_def)

text \<open>
  No option of the builder is stored under \<^verbatim>\<open>baseFeeGasMax\<close>: the option is declared
  as \<^verbatim>\<open>base-fee-per-gas-max\<close>, whose camel-case key is \<^verbatim>\<open>baseFeePerGasMax\<close>.
\<close>

lemma property_baseFeeGasMax: "property a ''baseFeeGasMax'' = Undefined"
  by (simp add: property_def option_names_def toUpperCase_def)

text \<open>So the fee ceiling of the handler is the legacy gas price maximum, whatever else is configured.\<close>

lemma maxGasFee_gas_price_max: "maxGasFee a = JNumber (gas_price_max a)"
  by (simp add: maxGasFee_def property_baseFeeGasMax property_gasPriceMax js_or_def)

text \<open>
  C1 (the fee ceiling is the configured base-fee-per-gas maximum when there is one, and
  the legacy gas price maximum otherwise), evaluated on the command line
  \<^verbatim>\<open>--base-fee-per-gas-max 50\<close> with every other option at its default: the handler
  computes the default legacy maximum of 100 gwei, while \<open>argv\<close> holds the configured
  50 gwei under the key the handler does not read.
\<close>

theorem maxGasFee_ignores_base_fee_per_gas_max:
  "maxGasFee (builder (cli_defaults\<lparr>cli_base_fee_per_gas_max := Some (Finite 50)\<rparr>))
     = JNumber (Finite 100000000000) \<and>
   property (builder (cli_defaults\<lparr>cli_base_fee_per_gas_max := Some (Finite 50)\<rparr>))
     ''baseFeePerGasMax'' = JNumber (Finite 50000000000)"
  by (simp add: maxGasFee_gas_price_max property_baseFeePerGasMax builder_def cli_defaults_def
      coerce_gas_price_max_def coerce_base_fee_per_gas_max_def)

subsection \<open>The check of the gas increase factor\<close>

lemma le_not_gt: "le a b \<Longrightarrow> \<not> gt a b"
  unfolding gt_def by (cases a; cases b) auto

lemma msg_gas_increase_factor_distinct:
  "msg_gas_increase_factor \<noteq> msg_network_subgraph"
  "msg_gas_increase_factor \<noteq> msg_geo_coordinates"
  "msg_gas_increase_factor \<noteq> msg_gas_increase_timeout"
  by (simp_all add: msg_gas_increase_factor_def msg_network_subgraph_def
      msg_geo_coordinates_def msg_gas_increase_timeout_def)

lemma check_factor_message_only_if:
  "check toNumber a = CheckMessage msg_gas_increase_factor \<Longrightarrow>
     le (gas_increase_factor a) (Finite 1)"
  using msg_gas_increase_factor_distinct
  by (auto simp: check_def split: if_splits)

lemma check_rejects_small_factor:
  "le (gas_increase_factor a) (Finite 1) \<Longrightarrow> check toNumber a \<noteq> CheckTrue"
  by (simp add: check_def)

text \<open>
  C9: every \<open>argv\<close> whose gas increase factor is less than or equal to 1.0 is rejected by
  the check (it does not return \<^verbatim>\<open>true\<close>); the message of the factor test is returned
  only for such a factor, so for every factor greater than 1.0 the factor test passes.
\<close>

theorem check_gas_increase_factor:
  "(le (gas_increase_factor a) (Finite 1) \<longrightarrow> check toNumber a \<noteq> CheckTrue) \<and>
   (check toNumber a = CheckMessage msg_gas_increase_factor \<longrightarrow>
      le (gas_increase_factor a) (Finite 1)) \<and>
   (gt (gas_increase_factor a) (Finite 1) \<longrightarrow>
      check toNumber a \<noteq> CheckMessage msg_gas_increase_factor)"
proof (intro conjI impI)
  assume "le (gas_increase_factor a) (Finite 1)"
  then show "check toNumber a \<noteq> CheckTrue"
    by (rule check_rejects_small_factor)
next
  assume "check toNumber a = CheckMessage msg_gas_increase_factor"
  then show "le (gas_increase_factor a) (Finite 1)"
    by (rule check_factor_message_only_if)
next
  assume "gt (gas_increase_factor a) (Finite 1)"
  then have "\<not> le (gas_increase_factor a) (Finite 1)"
    using le_not_gt by blast
  then show "check toNumber a \<noteq> CheckMessage msg_gas_increase_factor"
    using check_factor_message_only_if by blast
qed

text \<open>
  At a factor of exactly 1.0 the check returns the message of the factor test; at the
  default factor of 1.2 the default command line is accepted.
\<close>

theorem check_gas_increase_factor_witness:
  "le (gas_increase_factor (builder (cli_defaults\<lparr>cli_gas_increase_factor := Some (Finite 1)\<rparr>)))
      (Finite 1) \<and>
   check toNumber_coordinates
     (builder (cli_defaults\<lparr>cli_gas_increase_factor := Some (Finite 1)\<rparr>))
     = CheckMessage msg_gas_increase_factor \<and>
   check toNumber_coordinates
     (builder (cli_defaults\<lparr>cli_gas_increase_factor := Some (Finite 1)\<rparr>)) \<noteq> CheckTrue \<and>
   gt (gas_increase_factor (builder cli_defaults)) (Finite 1) \<and>
   check toNumber_coordinates (builder cli_defaults) = CheckTrue"
  using check_gas_increase_factor
    [of "builder (cli_defaults\<lparr>cli_gas_increase_factor := Some (Finite 1)\<rparr>)"
        toNumber_coordinates]
    check_gas_increase_factor [of "builder cli_defaults" toNumber_coordinates]
  by (simp add: check_def builder_def cli_defaults_def toNumber_coordinates_def gt_def
      coerce_gas_increase_timeout_def coerce_indexer_geo_coordinates_def)

subsection \<open>The check of the gas increase timeout\<close>

lemma msg_gas_increase_timeout_distinct:
  "msg_gas_increase_timeout \<noteq> msg_network_subgraph"
  "msg_gas_increase_timeout \<noteq> msg_geo_coordinates"
  "msg_gas_increase_timeout \<noteq> msg_gas_increase_factor"
  by (simp_all add: msg_gas_increase_factor_def msg_network_subgraph_def
      msg_geo_coordinates_def msg_gas_increase_timeout_def)

lemma check_timeout_message_only_if:
  "check toNumber a = CheckMessage msg_gas_increase_timeout \<Longrightarrow>
     truthy_number (gas_increase_timeout a) \<and> lt (gas_increase_timeout a) (Finite 30000)"
  using msg_gas_increase_timeout_distinct
  by (auto simp: check_def split: if_splits)

lemma coerce_gas_increase_timeout_zero: "coerce_gas_increase_timeout (Finite 0) = Finite 0"
  by (simp add: coerce_gas_increase_timeout_def)

text \<open>With a timeout of 0 ms the verdict is that of the three other tests.\<close>

lemma check_zero_timeout_accepted:
  assumes "gas_increase_timeout a = Finite 0"
  shows "(check toNumber a = CheckTrue) =
        ((truthy (opt_string (network_subgraph_endpoint a)) \<or>
          truthy (opt_string (network_subgraph_deployment a))) \<and>
         truthy_number (unary_plus toNumber (element (indexer_geo_coordinates a) 0)) \<and>
         truthy_number (unary_plus toNumber (element (indexer_geo_coordinates a) 1)) \<and>
         \<not> le (gas_increase_factor a) (Finite 1))"
  using assms by (auto simp: check_def split: if_splits)

text \<open>
  C10: the check returns the message of the timeout test only when the coerced timeout
  is truthy and below 30000 ms. A timeout of 0 seconds is coerced to 0 ms, which is below
  30000 and falsy: for an \<open>argv\<close> with that timeout the check never returns the timeout
  message, and it returns \<^verbatim>\<open>true\<close> exactly when the three other tests pass.
\<close>

theorem check_gas_increase_timeout_zero:
  "(check toNumber a = CheckMessage msg_gas_increase_timeout \<longrightarrow>
      truthy_number (gas_increase_timeout a) \<and> lt (gas_increase_timeout a) (Finite 30000)) \<and>
   coerce_gas_increase_timeout (Finite 0) = Finite 0 \<and>
   (gas_increase_timeout a = coerce_gas_increase_timeout (Finite 0) \<longrightarrow>
      lt (gas_increase_timeout a) (Finite 30000) \<and>
      check toNumber a \<noteq> CheckMessage msg_gas_increase_timeout \<and>
      (check toNumber a = CheckTrue) =
        ((truthy (opt_string (network_subgraph_endpoint a)) \<or>
          truthy (opt_string (network_subgraph_deployment a))) \<and>
         truthy_number (unary_plus toNumber (element (indexer_geo_coordinates a) 0)) \<and>
         truthy_number (unary_plus toNumber (element (indexer_geo_coordinates a) 1)) \<and>
         \<not> le (gas_increase_factor a) (Finite 1)))"
proof (intro conjI impI)
  assume "check toNumber a = CheckMessage msg_gas_increase_timeout"
  then show "truthy_number (gas_increase_timeout a)"
    and "lt (gas_increase_timeout a) (Finite 30000)"
    using check_timeout_message_only_if by blast+
next
  show "coerce_gas_increase_timeout (Finite 0) = Finite 0"
    by (rule coerce_gas_increase_timeout_zero)
next
  assume "gas_increase_timeout a = coerce_gas_increase_timeout (Finite 0)"
  then have zero: "gas_increase_timeout a = Finite 0"
    by (simp add: coerce_gas_increase_timeout_zero)
  show "lt (gas_increase_timeout a) (Finite 30000)"
    unfolding zero by simp
  show "check toNumber a \<noteq> CheckMessage msg_gas_increase_timeout"
    using zero check_timeout_message_only_if [of toNumber a] by auto
  show "(check toNumber a = CheckTrue) =
        ((truthy (opt_string (network_subgraph_endpoint a)) \<or>
          truthy (opt_string (network_subgraph_deployment a))) \<and>
         truthy_number (unary_plus toNumber (element (indexer_geo_coordinates a) 0)) \<and>
         truthy_number (unary_plus toNumber (element (indexer_geo_coordinates a) 1)) \<and>
         \<not> le (gas_increase_factor a) (Finite 1))"
    using zero by (rule check_zero_timeout_accepted)
qed

text \<open>
  A timeout of 1 second is truthy and below the minimum, and is rejected with the
  timeout message; a timeout of 0 seconds, with every other option at its default, is
  accepted.
\<close>

theorem check_gas_increase_timeout_zero_witness:
  "check toNumber_coordinates
     (builder (cli_defaults\<lparr>cli_gas_increase_timeout := Some (Finite 1)\<rparr>))
     = CheckMessage msg_gas_increase_timeout \<and>
   truthy_number (gas_increase_timeout
     (builder (cli_defaults\<lparr>cli_gas_increase_timeout := Some (Finite 1)\<rparr>))) \<and>
   lt (gas_increase_timeout
     (builder (cli_defaults\<lparr>cli_gas_increase_timeout := Some (Finite 1)\<rparr>))) (Finite 30000) \<and>
   gas_increase_timeout (builder (cli_defaults\<lparr>cli_gas_increase_timeout := Some (Finite 0)\<rparr>))
     = coerce_gas_increase_timeout (Finite 0) \<and>
   check toNumber_coordinates
     (builder (cli_defaults\<lparr>cli_gas_increase_timeout := Some (Finite 0)\<rparr>)) = CheckTrue"
  using check_gas_increase_timeout_zero
    [of toNumber_coordinates
        "builder (cli_defaults\<lparr>cli_gas_increase_timeout := Some (Finite 1)\<rparr>)"]
    check_gas_increase_timeout_zero
    [of toNumber_coordinates
        "builder (cli_defaults\<lparr>cli_gas_increase_timeout := Some (Finite 0)\<rparr>)"]
  by (simp add: check_def builder_def cli_defaults_def toNumber_coordinates_def
      coerce_gas_increase_timeout_def coerce_indexer_geo_coordinates_def
      msg_gas_increase_timeout_def)

section \<open>Properties of the transaction executor\<close>

lemma submit_from_nonempty: "fst (submit_from p k n f rs) \<noteq> []"
  by (induction p k n f rs rule: submit_from.induct) (auto split: prod.splits)

lemma submit_from_first_fee: "fee (fst (submit_from p k n f rs) ! 0) = f"
  by (induction p k n f rs rule: submit_from.induct) (auto split: prod.splits)

text \<open>Every attempt of one \<open>submit\<close> carries the nonce assigned at the start.\<close>

lemma submit_from_nonce:
  "a \<in> set (fst (submit_from p k n f rs)) \<Longrightarrow> nonce a = k"
  by (induction p k n f rs rule: submit_from.induct) (auto split: prod.splits if_splits)

text \<open>Each resubmission is sent at the fee recomputed from the fee of the attempt before it.\<close>

lemma submit_from_next_fee:
  "Suc i < length (fst (submit_from p k n f rs)) \<Longrightarrow>
     fee (fst (submit_from p k n f rs) ! Suc i) =
       recompute_fee p (fee (fst (submit_from p k n f rs) ! i))"
proof (induction p k n f rs arbitrary: i rule: submit_from.induct)
  case (4 p k n f rs)
  show ?case
  proof (cases "attempts_remain p (Suc n)")
    case False
    with "4.prems" show ?thesis by simp
  next
    case True
    obtain later result
      where eq: "submit_from p k (Suc n) (recompute_fee p f) rs = (later, result)"
      by (cases "submit_from p k (Suc n) (recompute_fee p f) rs")
    have whole: "fst (submit_from p k n f (Unconfirmed # rs)) = \<lparr>nonce = k, fee = f\<rparr> # later"
      using True eq by simp
    show ?thesis
    proof (cases i)
      case 0
      have "fee (later ! 0) = recompute_fee p f"
        using submit_from_first_fee [of p k "Suc n" "recompute_fee p f" rs] eq by simp
      with 0 whole show ?thesis by simp
    next
      case (Suc j)
      have "Suc j < length later"
        using "4.prems" whole Suc by simp
      then have "fee (later ! Suc j) = recompute_fee p (fee (later ! j))"
        using "4.IH" [OF True, of j] eq by simp
      with Suc whole show ?thesis by simp
    qed
  qed
qed simp_all

lemma recompute_fee_le_cap: "maxFeeCap p = Some cap \<Longrightarrow> recompute_fee p f \<le> cap"
  by (simp add: recompute_fee_def)

lemma recompute_fee_greater:
  assumes "1 < feeEscalationFactor p" and "0 < f"
    and "\<forall>cap. maxFeeCap p = Some cap \<longrightarrow> f < cap"
  shows "f < recompute_fee p f"
proof -
  have "f * 1 < f * feeEscalationFactor p"
    using assms(1,2) by (intro mult_strict_left_mono)
  then have "f < f * feeEscalationFactor p" by simp
  with assms(3) show ?thesis
    by (simp add: recompute_fee_def split: option.splits)
qed

lemma recompute_fee_at_cap:
  assumes "maxFeeCap p = Some cap" and "cap \<le> f * feeEscalationFactor p"
  shows "recompute_fee p f = cap"
  using assms by (simp add: recompute_fee_def)

text \<open>
  C2, as amended: with an escalation factor above 1 and a positive fee at attempt \<open>n\<close>,
  the fee of attempt \<open>n + 1\<close> is the fee of attempt \<open>n\<close> times the factor, capped at the
  maximum when one is set; it never exceeds the cap; it is strictly greater than the fee
  of attempt \<open>n\<close> as long as that fee is below the cap (or no cap is set); and it is the
  cap itself once the product reaches the cap.
\<close>

theorem fee_escalation:
  assumes "1 < feeEscalationFactor p"
    and "Suc n < length (fst (submit p k f0 rs))"
    and "0 < fee (fst (submit p k f0 rs) ! n)"
  shows "fee (fst (submit p k f0 rs) ! Suc n) =
           recompute_fee p (fee (fst (submit p k f0 rs) ! n)) \<and>
         (\<forall>cap. maxFeeCap p = Some cap \<longrightarrow> fee (fst (submit p k f0 rs) ! Suc n) \<le> cap) \<and>
         ((\<forall>cap. maxFeeCap p = Some cap \<longrightarrow> fee (fst (submit p k f0 rs) ! n) < cap) \<longrightarrow>
            fee (fst (submit p k f0 rs) ! n) < fee (fst (submit p k f0 rs) ! Suc n)) \<and>
         (\<forall>cap. maxFeeCap p = Some cap \<and>
            cap \<le> fee (fst (submit p k f0 rs) ! n) * feeEscalationFactor p \<longrightarrow>
            fee (fst (submit p k f0 rs) ! Suc n) = cap)"
proof -
  have step: "fee (fst (submit p k f0 rs) ! Suc n) =
           recompute_fee p (fee (fst (submit p k f0 rs) ! n))"
    using assms(2) unfolding submit_def by (rule submit_from_next_fee)
  show ?thesis
    unfolding step
    using assms(1,3) recompute_fee_le_cap recompute_fee_greater recompute_fee_at_cap
    by blast
qed

text \<open>
  The spec's scenario: a transaction sent at fee 10 that is not confirmed is resent at
  fee 12, which is above 10 and within the cap of 15.
\<close>

theorem fee_escalation_witness:
  "1 < feeEscalationFactor scenario_policy \<and>
   Suc 0 < length (fst (submit scenario_policy 7 10 [Unconfirmed])) \<and>
   0 < fee (fst (submit scenario_policy 7 10 [Unconfirmed]) ! 0) \<and>
   fee (fst (submit scenario_policy 7 10 [Unconfirmed]) ! 0) = 10 \<and>
   fee (fst (submit scenario_policy 7 10 [Unconfirmed]) ! Suc 0) = 12 \<and>
   fee (fst (submit scenario_policy 7 10 [Unconfirmed]) ! 0)
     < fee (fst (submit scenario_policy 7 10 [Unconfirmed]) ! Suc 0) \<and>
   fee (fst (submit scenario_policy 7 10 [Unconfirmed]) ! Suc 0) \<le> 15"
proof -
  have a: "1 < feeEscalationFactor scenario_policy"
    by (simp add: scenario_policy_def)
  have b: "Suc 0 < length (fst (submit scenario_policy 7 10 [Unconfirmed]))"
    by (simp add: submit_def scenario_policy_def attempts_remain_def)
  have c: "0 < fee (fst (submit scenario_policy 7 10 [Unconfirmed]) ! 0)"
    by (simp add: submit_def scenario_policy_def attempts_remain_def)
  show ?thesis
    using a b c fee_escalation [OF a b c]
    by (simp add: submit_def scenario_policy_def attempts_remain_def recompute_fee_def)
qed

text \<open>
  C2 as stated fails in the same scenario once the cap is reached: with four attempts
  unconfirmed in a row the fees are 10, 12, 14.4, 15 and 15, and the fifth attempt is not
  strictly above the fourth.
\<close>

theorem fee_escalation_counterexample:
  "map fee (fst (submit scenario_policy 7 10
       [Unconfirmed, Unconfirmed, Unconfirmed, Unconfirmed])) = [10, 12, 72 / 5, 15, 15] \<and>
   \<not> (fee (fst (submit scenario_policy 7 10
          [Unconfirmed, Unconfirmed, Unconfirmed, Unconfirmed]) ! 3)
       < fee (fst (submit scenario_policy 7 10
          [Unconfirmed, Unconfirmed, Unconfirmed, Unconfirmed]) ! 4))"
  by (simp add: submit_def scenario_policy_def attempts_remain_def recompute_fee_def)

end
